theory Spec2Isabelle
  imports Complex_Main
begin

text \<open>
  The surface component of the repository, \<^verbatim>\<open>GraphVisualizerComponent\<close>, compiles a
  formula text with the host's \<^verbatim>\<open>Function\<close> constructor (\<^verbatim>\<open>compileFormula\<close>), writes the
  compiled function's value at every vertex into the position arrays of two meshes
  (\<^verbatim>\<open>updateGraph\<close>), and does so from a loop of animation frames (\<^verbatim>\<open>animate\<close>), between
  \<^verbatim>\<open>ngAfterViewInit\<close> and \<^verbatim>\<open>ngOnDestroy\<close>. Each of its methods is a function on a record
  of the component's fields below; a method that can end with an exception returns the
  exception, if any, beside the state it has reached.

  The specification names the same operations differently: its \<open>advance(t)\<close> is
  \<^verbatim>\<open>updateGraph(t)\<close>, its \<open>setFormula\<close> is the binding of the \<^verbatim>\<open>formula\<close> input followed by
  \<^verbatim>\<open>ngOnChanges\<close>, its \<open>resize\<close> is \<^verbatim>\<open>onWindowResize\<close>, its \<open>attach\<close> and \<open>detach\<close> are
  \<^verbatim>\<open>ngAfterViewInit\<close> and \<^verbatim>\<open>ngOnDestroy\<close>, and its animation step is \<^verbatim>\<open>animate\<close>.

  What belongs to the host is kept apart from the component: the \<^verbatim>\<open>Function\<close>
  constructor is a parameter of the operations that compile, the clock reading and the
  container's size are arguments, and the position array of the plane geometry is given.
\<close>

section \<open>JavaScript values\<close>

text \<open>
  A JavaScript number is NaN, one of the two infinities, or finite. A finite number is
  represented by the real it denotes. The three special values are kept apart because the
  program tests for exactly one of them (\<^verbatim>\<open>isNaN\<close>). Rounding (of doubles, and of the
  single-precision cells of a \<^verbatim>\<open>Float32Array\<close>) and the sign of zero are not represented.
\<close>

datatype number = NaN | PosInfinity | NegInfinity | Finite real

text \<open>
  The primitive values a compiled formula can return. \<^verbatim>\<open>compiledFunc\<close> has the
  TypeScript type \<^verbatim>\<open>Function\<close>, so its result is not known to be a number. Strings and
  objects are left out: their conversion to a number runs a parser or user code.
\<close>

datatype jsval = Number number | Undefined | Null | Boolean bool | BigInt int | Symbol

datatype exn = SyntaxError | ReferenceError | TypeError | RangeError | Thrown jsval

text \<open>The abstract operation ToNumber of the language, on the primitives above.\<close>

fun ToNumber :: "jsval \<Rightarrow> exn + number" where
  "ToNumber (Number n) = Inr n"
| "ToNumber Undefined = Inr NaN"
| "ToNumber Null = Inr (Finite 0)"
| "ToNumber (Boolean b) = Inr (Finite (if b then 1 else 0))"
| "ToNumber (BigInt k) = Inl TypeError"
| "ToNumber Symbol = Inl TypeError"

text \<open>The global \<^verbatim>\<open>isNaN\<close>: it converts its argument with ToNumber first.\<close>

definition isNaN :: "jsval \<Rightarrow> exn + bool" where
  "isNaN v = (case ToNumber v of Inl e \<Rightarrow> Inl e | Inr n \<Rightarrow> Inr (n = NaN))"

text \<open>
  Arithmetic of numbers, used for the time value of a frame and for the camera's aspect.
  On finite operands it is exact; the special values follow IEEE 754.
\<close>

fun num_neg :: "number \<Rightarrow> number" where
  "num_neg NaN = NaN"
| "num_neg PosInfinity = NegInfinity"
| "num_neg NegInfinity = PosInfinity"
| "num_neg (Finite a) = Finite (- a)"

fun num_add :: "number \<Rightarrow> number \<Rightarrow> number" where
  "num_add (Finite a) (Finite b) = Finite (a + b)"
| "num_add NaN _ = NaN"
| "num_add _ NaN = NaN"
| "num_add PosInfinity NegInfinity = NaN"
| "num_add NegInfinity PosInfinity = NaN"
| "num_add PosInfinity _ = PosInfinity"
| "num_add NegInfinity _ = NegInfinity"
| "num_add _ PosInfinity = PosInfinity"
| "num_add _ NegInfinity = NegInfinity"

definition num_sub :: "number \<Rightarrow> number \<Rightarrow> number" where
  "num_sub a b = num_add a (num_neg b)"

text \<open>The sign of a number that is not NaN: \<open>-1\<close>, \<open>0\<close> or \<open>1\<close>.\<close>

fun num_sgn :: "number \<Rightarrow> int" where
  "num_sgn NaN = 0"
| "num_sgn PosInfinity = 1"
| "num_sgn NegInfinity = - 1"
| "num_sgn (Finite a) = (if a < 0 then - 1 else if a = 0 then 0 else 1)"

definition signed_infinity :: "int \<Rightarrow> number" where
  "signed_infinity k = (if k < 0 then NegInfinity else PosInfinity)"

fun num_mul :: "number \<Rightarrow> number \<Rightarrow> number" where
  "num_mul (Finite a) (Finite b) = Finite (a * b)"
| "num_mul NaN _ = NaN"
| "num_mul _ NaN = NaN"
| "num_mul a b =
     (if num_sgn a = 0 \<or> num_sgn b = 0 then NaN else signed_infinity (num_sgn a * num_sgn b))"

fun num_div :: "number \<Rightarrow> number \<Rightarrow> number" where
  "num_div (Finite a) (Finite b) =
     (if b \<noteq> 0 then Finite (a / b)
      else if a = 0 then NaN
      else signed_infinity (num_sgn (Finite a)))"
| "num_div NaN _ = NaN"
| "num_div _ NaN = NaN"
| "num_div (Finite a) _ = Finite 0"
| "num_div a (Finite b) = signed_infinity (num_sgn a * (if b < 0 then - 1 else 1))"
| "num_div _ _ = NaN"

section \<open>The component's state\<close>

text \<open>
  A compiled formula is a host function of three arguments. It runs in the host's world
  \<open>'w\<close> (global objects, the random source, the clock), which it may read and change, and
  it completes by returning a value or by throwing.
\<close>

type_synonym 'w evaluator = "jsval \<Rightarrow> jsval \<Rightarrow> jsval \<Rightarrow> 'w \<Rightarrow> (exn + jsval) \<times> 'w"

text \<open>
  The fields of \<^verbatim>\<open>GraphVisualizerComponent\<close> that the operations below read or write,
  and the part of the browser they act on. \<open>scene\<close> says that \<^verbatim>\<open>initThree\<close> has run: the
  scene, the camera, the renderer and the controls exist from then on, and the camera and
  renderer fields mean nothing before. A mesh is represented by the \<^verbatim>\<open>Float32Array\<close> of
  its geometry's position attribute, the flat sequence \<open>x0, y0, z0, x1, y1, z1, ...\<close>
  (\<open>None\<close>: the field is still undefined); \<open>material_color\<close> is the colour of the two
  materials. \<open>pendingFrames\<close> are the handles of the frame callbacks the browser has
  still to run, \<open>nextFrameId\<close> the handle it gives out next, \<open>resizeListener\<close> whether
  the window's resize event reaches the component, \<open>renders\<close> the number of calls of
  \<^verbatim>\<open>renderer.render\<close> so far, \<open>world\<close> the rest of the host's state.
\<close>

record 'w visualizer =
  formula :: string
  color :: string
  isAnimated :: bool
  timeScale :: number
  scene :: bool
  camera_fov :: number
  camera_aspect :: number
  renderer_size :: "number \<times> number"
  material_color :: string
  wireframeMesh :: "number list option"
  solidMesh :: "number list option"
  animationFrameId :: "nat option"
  startTime :: int
  compiledFunc :: "'w evaluator option"
  pendingFrames :: "nat list"
  nextFrameId :: nat
  resizeListener :: bool
  renders :: nat
  world :: 'w

text \<open>
  The state of a component when its constructor returns: the field initialisers of the
  class, with \<^verbatim>\<open>startTime = Date.now()\<close> read from the clock at that moment.
\<close>

definition construct :: "int \<Rightarrow> 'w \<Rightarrow> 'w visualizer" where
  "construct now w =
     \<lparr> formula = ''Math.sin(Math.sqrt(x*x + y*y))'',
       color = ''#22d3ee'',
       isAnimated = True,
       timeScale = Finite 1,
       scene = False,
       camera_fov = Finite 60,
       camera_aspect = Finite 1,
       renderer_size = (Finite 0, Finite 0),
       material_color = ''#22d3ee'',
       wireframeMesh = None,
       solidMesh = None,
       animationFrameId = None,
       startTime = now,
       compiledFunc = None,
       pendingFrames = [],
       nextFrameId = 1,
       resizeListener = False,
       renders = 0,
       world = w \<rparr>"

section \<open>compileFormula\<close>

text \<open>
  The body handed to the host's \<^verbatim>\<open>Function\<close> constructor: the formula text spliced
  into a fixed template.
\<close>

definition body :: "string \<Rightarrow> string" where
  "body text = ''try { return '' @ text @ ''; } catch(e) { return 0; }''"

text \<open>
  \<^verbatim>\<open>new Function('x', 'y', 't', body)\<close> belongs to the host, so it is a parameter
  \<open>newFunction\<close>: it yields the compiled function, or throws.
\<close>

definition compileFormula ::
  "(string \<Rightarrow> exn + 'w evaluator) \<Rightarrow> 'w visualizer \<Rightarrow> 'w visualizer" where
  "compileFormula newFunction s =
     (case newFunction (body (formula s)) of
        Inr f \<Rightarrow> s\<lparr>compiledFunc := Some f\<rparr>
      | Inl e \<Rightarrow> s\<lparr>compiledFunc := None\<rparr>)"

section \<open>updateGraph\<close>

text \<open>
  Reading a typed array outside its bounds gives \<^verbatim>\<open>undefined\<close>; writing there is
  ignored.
\<close>

definition float32_get :: "number list \<Rightarrow> nat \<Rightarrow> jsval" where
  "float32_get vertices i = (if i < length vertices then Number (vertices ! i) else Undefined)"

definition float32_set :: "number list \<Rightarrow> nat \<Rightarrow> number \<Rightarrow> number list" where
  "float32_set vertices i n = (if i < length vertices then vertices[i := n] else vertices)"

text \<open>
  The loop over one position array, from index \<open>i\<close> in steps of three. The array is
  changed in place, so what was written before an exception stays written: the result
  carries the array in both cases.
\<close>

function vertex_loop ::
  "'w evaluator \<Rightarrow> number \<Rightarrow> nat \<Rightarrow> number list \<Rightarrow> 'w \<Rightarrow> exn option \<times> number list \<times> 'w" where
  "vertex_loop f t i vertices w =
     (if i < length vertices then
        (case f (float32_get vertices i) (float32_get vertices (i + 2)) (Number t) w of
           (Inl e, w') \<Rightarrow> (Some e, vertices, w')
         | (Inr y, w') \<Rightarrow>
             (case isNaN y of
                Inl e \<Rightarrow> (Some e, vertices, w')
              | Inr b \<Rightarrow>
                  (case ToNumber (if b then Number (Finite 0) else y) of
                     Inl e \<Rightarrow> (Some e, vertices, w')
                   | Inr n \<Rightarrow> vertex_loop f t (i + 3) (float32_set vertices (i + 1) n) w')))
      else (None, vertices, w))"
  by pat_completeness auto
termination
  by (relation "measure (\<lambda>(f, t, i, vertices, w). length vertices - i)")
    (auto simp: float32_set_def)

declare vertex_loop.simps [simp del]

text \<open>
  \<^verbatim>\<open>updateGraph(t)\<close>: nothing happens without the wireframe mesh or without a compiled
  function; otherwise the wireframe's array is processed, then the solid shell's. An
  exception ends the call where it is. (The flag \<^verbatim>\<open>needsUpdate\<close> and the vertex normals,
  which are recomputed from the positions, are not part of the state.)
\<close>

definition updateGraph :: "number \<Rightarrow> 'w visualizer \<Rightarrow> exn option \<times> 'w visualizer" where
  "updateGraph t s =
     (case (wireframeMesh s, compiledFunc s) of
        (Some wire, Some f) \<Rightarrow>
          (case solidMesh s of
             None \<Rightarrow> (Some TypeError, s)
           | Some solid \<Rightarrow>
               (case vertex_loop f t 0 wire (world s) of
                  (Some e, wire', w1) \<Rightarrow> (Some e, s\<lparr>wireframeMesh := Some wire', world := w1\<rparr>)
                | (None, wire', w1) \<Rightarrow>
                    (case vertex_loop f t 0 solid w1 of
                       (r, solid', w2) \<Rightarrow>
                         (r, s\<lparr>wireframeMesh := Some wire', solidMesh := Some solid',
                                world := w2\<rparr>))))
      | _ \<Rightarrow> (None, s))"

section \<open>The animation loop\<close>

text \<open>
  The browser's frame queue: \<^verbatim>\<open>requestAnimationFrame\<close> registers a callback and returns
  its handle, a positive integer; \<^verbatim>\<open>cancelAnimationFrame\<close> removes it.
\<close>

definition requestAnimationFrame :: "'w visualizer \<Rightarrow> nat \<times> 'w visualizer" where
  "requestAnimationFrame s =
     (nextFrameId s,
      s\<lparr>pendingFrames := pendingFrames s @ [nextFrameId s], nextFrameId := Suc (nextFrameId s)\<rparr>)"

definition cancelAnimationFrame :: "nat \<Rightarrow> 'w visualizer \<Rightarrow> 'w visualizer" where
  "cancelAnimationFrame h s = s\<lparr>pendingFrames := removeAll h (pendingFrames s)\<rparr>"

text \<open>The time value of a frame: \<^verbatim>\<open>(Date.now() - this.startTime) / 1000 * this.timeScale\<close>.\<close>

definition frame_time :: "int \<Rightarrow> 'w visualizer \<Rightarrow> number" where
  "frame_time now s =
     num_mul (num_div (Finite (real_of_int (now - startTime s))) (Finite 1000)) (timeScale s)"

definition render :: "'w visualizer \<Rightarrow> 'w visualizer" where
  "render s = s\<lparr>renders := Suc (renders s)\<rparr>"

text \<open>
  \<^verbatim>\<open>animate()\<close> at clock reading \<open>now\<close>: its first line schedules the next call and
  keeps the handle (\<open>schedule_next\<close>); then it updates the controls (which exist once
  \<^verbatim>\<open>initThree\<close> has run), the surface when animation is on, and renders.
\<close>

definition schedule_next :: "'w visualizer \<Rightarrow> 'w visualizer" where
  "schedule_next s = (let (h, s1) = requestAnimationFrame s in s1\<lparr>animationFrameId := Some h\<rparr>)"

definition animate :: "int \<Rightarrow> 'w visualizer \<Rightarrow> exn option \<times> 'w visualizer" where
  "animate now s =
     (let s1 = schedule_next s
      in if \<not> scene s1 then (Some TypeError, s1)
         else if isAnimated s1 then
           (case updateGraph (frame_time now s1) s1 of
              (Some e, s2) \<Rightarrow> (Some e, s2)
            | (None, s2) \<Rightarrow> (None, render s2))
         else (None, render s1))"

text \<open>The browser running the next frame: the oldest pending callback, if there is one.\<close>

definition browser_frame :: "int \<Rightarrow> 'w visualizer \<Rightarrow> exn option \<times> 'w visualizer" where
  "browser_frame now s =
     (case pendingFrames s of
        [] \<Rightarrow> (None, s)
      | h # rest \<Rightarrow> animate now (s\<lparr>pendingFrames := rest\<rparr>))"

section \<open>Lifecycle\<close>

text \<open>
  \<^verbatim>\<open>initThree\<close>, as far as the state above goes: the scene exists, the camera has a
  vertical field of view of 60 degrees and the container's aspect, the renderer has the
  container's size.
\<close>

definition initThree :: "number \<Rightarrow> number \<Rightarrow> 'w visualizer \<Rightarrow> 'w visualizer" where
  "initThree clientWidth clientHeight s =
     s\<lparr>scene := True, camera_fov := Finite 60,
       camera_aspect := num_div clientWidth clientHeight,
       renderer_size := (clientWidth, clientHeight)\<rparr>"

text \<open>
  \<^verbatim>\<open>createGraphMeshes\<close>: \<open>plane\<close> is the position array of the rotated
  \<^verbatim>\<open>PlaneGeometry(20, 20, 150, 150)\<close>; the solid shell gets a clone of it.
\<close>

definition createGraphMeshes :: "number list \<Rightarrow> 'w visualizer \<Rightarrow> exn option \<times> 'w visualizer" where
  "createGraphMeshes plane s =
     updateGraph (Finite 0)
       (s\<lparr>wireframeMesh := Some plane, solidMesh := Some plane, material_color := color s\<rparr>)"

definition updateMaterials :: "'w visualizer \<Rightarrow> 'w visualizer" where
  "updateMaterials s = (if wireframeMesh s = None then s else s\<lparr>material_color := color s\<rparr>)"

definition ngAfterViewInit ::
  "(string \<Rightarrow> exn + 'w evaluator) \<Rightarrow> number list \<Rightarrow> number \<Rightarrow> number \<Rightarrow> int \<Rightarrow>
   'w visualizer \<Rightarrow> exn option \<times> 'w visualizer" where
  "ngAfterViewInit newFunction plane clientWidth clientHeight now s =
     (case createGraphMeshes plane (compileFormula newFunction (initThree clientWidth clientHeight s)) of
        (Some e, s1) \<Rightarrow> (Some e, s1)
      | (None, s1) \<Rightarrow>
          (case animate now s1 of
             (Some e, s2) \<Rightarrow> (Some e, s2)
           | (None, s2) \<Rightarrow> (None, s2\<lparr>resizeListener := True\<rparr>)))"

text \<open>
  \<^verbatim>\<open>ngOnChanges(changes)\<close>: the two flags say whether \<^verbatim>\<open>changes['formula']\<close> and
  \<^verbatim>\<open>changes['color']\<close> are present. The framework has already stored the new input
  values in the fields when it calls.
\<close>

definition ngOnChanges ::
  "(string \<Rightarrow> exn + 'w evaluator) \<Rightarrow> bool \<Rightarrow> bool \<Rightarrow> 'w visualizer \<Rightarrow> exn option \<times> 'w visualizer" where
  "ngOnChanges newFunction formula_changed color_changed s =
     (if scene s then
        (case (if formula_changed then
                 (let s1 = compileFormula newFunction s
                  in if \<not> isAnimated s1 then updateGraph (Finite 0) s1 else (None, s1))
               else (None, s)) of
           (Some e, s2) \<Rightarrow> (Some e, s2)
         | (None, s2) \<Rightarrow> (None, if color_changed then updateMaterials s2 else s2))
      else (None, s))"

text \<open>
  A new formula text arriving through the \<^verbatim>\<open>[formula]\<close> input binding: the framework
  assigns the field and calls \<^verbatim>\<open>ngOnChanges\<close> with that one change.
\<close>

definition setFormula ::
  "(string \<Rightarrow> exn + 'w evaluator) \<Rightarrow> string \<Rightarrow> 'w visualizer \<Rightarrow> exn option \<times> 'w visualizer" where
  "setFormula newFunction text s = ngOnChanges newFunction True False (s\<lparr>formula := text\<rparr>)"

text \<open>
  \<^verbatim>\<open>onWindowResize\<close>, given the container's width and height: without a camera (before
  \<^verbatim>\<open>initThree\<close>) the first assignment throws.
\<close>

definition onWindowResize ::
  "number \<Rightarrow> number \<Rightarrow> 'w visualizer \<Rightarrow> exn option \<times> 'w visualizer" where
  "onWindowResize clientWidth clientHeight s =
     (if scene s then
        (None, s\<lparr>camera_aspect := num_div clientWidth clientHeight,
                  renderer_size := (clientWidth, clientHeight)\<rparr>)
      else (Some TypeError, s))"

text \<open>
  \<^verbatim>\<open>ngOnDestroy\<close>: the handle is tested for truthiness, so an undefined handle and the
  handle 0 cancel nothing.
\<close>

definition ngOnDestroy :: "'w visualizer \<Rightarrow> 'w visualizer" where
  "ngOnDestroy s =
     (case animationFrameId s of
        Some h \<Rightarrow> (if h \<noteq> 0 then cancelAnimationFrame h s else s)
      | None \<Rightarrow> s)\<lparr>resizeListener := False\<rparr>"

section \<open>A reference host\<close>

text \<open>
  The operations above take the host's \<^verbatim>\<open>Function\<close> constructor as a parameter, and the
  general theorems hold for every host. To run the component on concrete formula texts,
  this section gives one host: the evaluation rules of the language for a fragment of its
  expressions, and the parse of the bodies that the examples below use. Arithmetic on
  finite numbers and the library functions are exact here (no rounding, no overflow).
\<close>

datatype param = X | Y | T

datatype binop = Add | Sub | Mul | Div

text \<open>
  \<open>Global\<close> is an identifier other than a parameter; \<open>MathConst\<close> and \<open>MathCall\<close> are
  the member accesses \<^verbatim>\<open>Math.name\<close> and \<^verbatim>\<open>Math.name(args)\<close>; \<open>BigLit\<close> is a literal
  such as \<^verbatim>\<open>1n\<close>.
\<close>

datatype expr =
    Lit real
  | BigLit int
  | Param param
  | Global string
  | MathConst string
  | MathCall string "expr list"
  | Neg expr
  | Bin binop expr expr

datatype stmt = Return expr | Try "stmt list" string "stmt list"

text \<open>
  The world a compiled function runs in: the bindings of the global identifiers, and the
  numbers that the coming calls of \<^verbatim>\<open>Math.random()\<close> return.
\<close>

record world =
  globals :: "(string \<times> jsval) list"
  random_source :: "real list"

fun math_sin :: "number \<Rightarrow> number" where
  "math_sin (Finite r) = Finite (sin r)"
| "math_sin _ = NaN"

fun math_cos :: "number \<Rightarrow> number" where
  "math_cos (Finite r) = Finite (cos r)"
| "math_cos _ = NaN"

fun math_sqrt :: "number \<Rightarrow> number" where
  "math_sqrt (Finite r) = (if r < 0 then NaN else Finite (sqrt r))"
| "math_sqrt PosInfinity = PosInfinity"
| "math_sqrt _ = NaN"

fun math_exp :: "number \<Rightarrow> number" where
  "math_exp (Finite r) = Finite (exp r)"
| "math_exp PosInfinity = PosInfinity"
| "math_exp NegInfinity = Finite 0"
| "math_exp NaN = NaN"

fun math_abs :: "number \<Rightarrow> number" where
  "math_abs (Finite r) = Finite \<bar>r\<bar>"
| "math_abs NaN = NaN"
| "math_abs _ = PosInfinity"

definition math_unary :: "string \<Rightarrow> (number \<Rightarrow> number) option" where
  "math_unary name =
     map_of [(''sin'', math_sin), (''cos'', math_cos), (''sqrt'', math_sqrt),
             (''exp'', math_exp), (''abs'', math_abs)] name"

text \<open>
  A call \<^verbatim>\<open>Math.name(args)\<close> on evaluated arguments. A missing argument is
  \<^verbatim>\<open>undefined\<close>; a name that is no function of the library is not callable.
\<close>

definition math_call :: "string \<Rightarrow> jsval list \<Rightarrow> world \<Rightarrow> (exn + jsval) \<times> world" where
  "math_call name args w =
     (if name = ''random'' then
        (case random_source w of
           [] \<Rightarrow> (Inr (Number (Finite 0)), w)
         | r # rs \<Rightarrow> (Inr (Number (Finite r)), w\<lparr>random_source := rs\<rparr>))
      else
        (case math_unary name of
           None \<Rightarrow> (Inl TypeError, w)
         | Some g \<Rightarrow>
             (case ToNumber (case args of [] \<Rightarrow> Undefined | a # _ \<Rightarrow> a) of
                Inl e \<Rightarrow> (Inl e, w)
              | Inr n \<Rightarrow> (Inr (Number (g n)), w))))"

definition math_const :: "string \<Rightarrow> jsval" where
  "math_const name = (if name = ''PI'' then Number (Finite pi) else Undefined)"

fun num_binop :: "binop \<Rightarrow> number \<Rightarrow> number \<Rightarrow> number" where
  "num_binop Add = num_add"
| "num_binop Sub = num_sub"
| "num_binop Mul = num_mul"
| "num_binop Div = num_div"

text \<open>
  A binary arithmetic operator on evaluated operands. Two BigInts are combined as
  integers (division truncates, and throws on a zero divisor); a BigInt with anything else,
  and a Symbol, is a TypeError; every other operand is converted with ToNumber.
\<close>

definition big_binop :: "binop \<Rightarrow> int \<Rightarrow> int \<Rightarrow> exn + jsval" where
  "big_binop bop a b =
     (case bop of
        Add \<Rightarrow> Inr (BigInt (a + b))
      | Sub \<Rightarrow> Inr (BigInt (a - b))
      | Mul \<Rightarrow> Inr (BigInt (a * b))
      | Div \<Rightarrow>
          (if b = 0 then Inl RangeError else Inr (BigInt (sgn a * sgn b * (\<bar>a\<bar> div \<bar>b\<bar>)))))"

definition js_binop :: "binop \<Rightarrow> jsval \<Rightarrow> jsval \<Rightarrow> exn + jsval" where
  "js_binop bop u v =
     (case (u, v) of
        (BigInt a, BigInt b) \<Rightarrow> big_binop bop a b
      | (BigInt a, _) \<Rightarrow> Inl TypeError
      | (_, BigInt b) \<Rightarrow> Inl TypeError
      | _ \<Rightarrow>
          (case ToNumber u of
             Inl e \<Rightarrow> Inl e
           | Inr a \<Rightarrow>
               (case ToNumber v of Inl e \<Rightarrow> Inl e | Inr b \<Rightarrow> Inr (Number (num_binop bop a b)))))"

fun js_neg :: "jsval \<Rightarrow> exn + jsval" where
  "js_neg (BigInt a) = Inr (BigInt (- a))"
| "js_neg v = (case ToNumber v of Inl e \<Rightarrow> Inl e | Inr a \<Rightarrow> Inr (Number (num_neg a)))"

text \<open>
  Evaluation of an expression with the parameters bound to \<open>(x, y, t)\<close>: operands and
  arguments from left to right, the world threaded through, the first exception ending
  the evaluation. An identifier that is no parameter and has no global binding is a
  ReferenceError.
\<close>

fun eval :: "expr \<Rightarrow> jsval \<times> jsval \<times> jsval \<Rightarrow> world \<Rightarrow> (exn + jsval) \<times> world"
  and eval_args :: "expr list \<Rightarrow> jsval \<times> jsval \<times> jsval \<Rightarrow> world \<Rightarrow> (exn + jsval list) \<times> world" where
  "eval (Lit r) env w = (Inr (Number (Finite r)), w)"
| "eval (BigLit k) env w = (Inr (BigInt k), w)"
| "eval (Param X) (x, y, t) w = (Inr x, w)"
| "eval (Param Y) (x, y, t) w = (Inr y, w)"
| "eval (Param T) (x, y, t) w = (Inr t, w)"
| "eval (Global name) env w =
     (case map_of (globals w) name of None \<Rightarrow> (Inl ReferenceError, w) | Some v \<Rightarrow> (Inr v, w))"
| "eval (MathConst name) env w = (Inr (math_const name), w)"
| "eval (MathCall name args) env w =
     (case eval_args args env w of
        (Inl e, w1) \<Rightarrow> (Inl e, w1)
      | (Inr vs, w1) \<Rightarrow> math_call name vs w1)"
| "eval (Neg a) env w =
     (case eval a env w of
        (Inl e, w1) \<Rightarrow> (Inl e, w1)
      | (Inr v, w1) \<Rightarrow> (js_neg v, w1))"
| "eval (Bin bop a b) env w =
     (case eval a env w of
        (Inl e, w1) \<Rightarrow> (Inl e, w1)
      | (Inr u, w1) \<Rightarrow>
          (case eval b env w1 of
             (Inl e, w2) \<Rightarrow> (Inl e, w2)
           | (Inr v, w2) \<Rightarrow> (js_binop bop u v, w2)))"
| "eval_args [] env w = (Inr [], w)"
| "eval_args (a # as) env w =
     (case eval a env w of
        (Inl e, w1) \<Rightarrow> (Inl e, w1)
      | (Inr v, w1) \<Rightarrow>
          (case eval_args as env w1 of
             (Inl e, w2) \<Rightarrow> (Inl e, w2)
           | (Inr vs, w2) \<Rightarrow> (Inr (v # vs), w2)))"

text \<open>
  Statements complete by returning a value (\<open>Inr (Some v)\<close>), by running to their end
  (\<open>Inr None\<close>) or by throwing. A handler runs when its block throws; the handlers of the
  fragment do not mention the caught value.
\<close>

fun exec :: "stmt \<Rightarrow> jsval \<times> jsval \<times> jsval \<Rightarrow> world \<Rightarrow> (exn + jsval option) \<times> world"
  and exec_list :: "stmt list \<Rightarrow> jsval \<times> jsval \<times> jsval \<Rightarrow> world \<Rightarrow> (exn + jsval option) \<times> world" where
  "exec (Return a) env w =
     (case eval a env w of (Inl e, w1) \<Rightarrow> (Inl e, w1) | (Inr v, w1) \<Rightarrow> (Inr (Some v), w1))"
| "exec (Try block e handler) env w =
     (case exec_list block env w of
        (Inl ex, w1) \<Rightarrow> exec_list handler env w1
      | (Inr r, w1) \<Rightarrow> (Inr r, w1))"
| "exec_list [] env w = (Inr None, w)"
| "exec_list (st # sts) env w =
     (case exec st env w of
        (Inl e, w1) \<Rightarrow> (Inl e, w1)
      | (Inr (Some v), w1) \<Rightarrow> (Inr (Some v), w1)
      | (Inr None, w1) \<Rightarrow> exec_list sts env w1)"

text \<open>Calling a function with parameters \<open>x, y, t\<close> and the given body.\<close>

definition call_function :: "stmt list \<Rightarrow> world evaluator" where
  "call_function stmts x y t w =
     (case exec_list stmts (x, y, t) w of
        (Inl e, w1) \<Rightarrow> (Inl e, w1)
      | (Inr None, w1) \<Rightarrow> (Inr Undefined, w1)
      | (Inr (Some v), w1) \<Rightarrow> (Inr v, w1))"

text \<open>What the template of \<open>body\<close> parses to when the spliced text is the expression \<open>a\<close>.\<close>

definition template :: "expr \<Rightarrow> stmt list" where
  "template a = [Try [Return a] ''e'' [Return (Lit 0)]]"

subsection \<open>Reading a body\<close>

text \<open>
  The reference host reads bodies of one shape: the template around a single-line
  arithmetic expression made of decimal and BigInt literals, identifiers, the operators
  \<^verbatim>\<open>+ - * /\<close>, unary minus, parentheses, \<^verbatim>\<open>Math.PI\<close> and calls of the library
  functions listed in \<open>math_functions\<close>. Every text it reads is read by the language the
  same way. It reports any other text as a SyntaxError, although the language accepts
  more (other operators, strings, member access on other objects, several statements);
  the theorems use this host only at texts it reads.
\<close>

datatype token = TNum nat nat | TBig nat | TIdent string | TPunct string

definition is_digit :: "char \<Rightarrow> bool" where
  "is_digit c = (c \<in> set ''0123456789'')"

definition is_ident_start :: "char \<Rightarrow> bool" where
  "is_ident_start c =
     (c \<in> set ''abcdefghijklmnopqrstuvwxyzABCDEFGHIJKLMNOPQRSTUVWXYZ_$'')"

definition is_ident_part :: "char \<Rightarrow> bool" where
  "is_ident_part c = (is_ident_start c \<or> is_digit c)"

definition digit_value :: "char \<Rightarrow> nat" where
  "digit_value c = of_char c - of_char CHR ''0''"

definition digits_value :: "string \<Rightarrow> nat" where
  "digits_value ds = foldl (\<lambda>n c. 10 * n + digit_value c) 0 ds"

text \<open>
  A numeric literal \<open>TNum m k\<close> stands for \<open>m / 10 ^ k\<close>. A literal with a leading zero
  (legacy octal), with an exponent or directly followed by a letter is not read.
\<close>

definition lex_number :: "string \<Rightarrow> (token \<times> string) option" where
  "lex_number cs =
     (let ds = takeWhile is_digit cs; r1 = dropWhile is_digit cs
      in if 1 < length ds \<and> hd ds = CHR ''0'' then None
         else (case r1 of
                 CHR ''.'' # r2 \<Rightarrow>
                   (let fs = takeWhile is_digit r2; r3 = dropWhile is_digit r2
                    in if fs = [] \<or> (r3 \<noteq> [] \<and> (is_ident_start (hd r3) \<or> hd r3 = CHR ''.''))
                       then None
                       else Some (TNum (digits_value (ds @ fs)) (length fs), r3))
               | CHR ''n'' # r2 \<Rightarrow>
                   (if r2 \<noteq> [] \<and> is_ident_part (hd r2) then None
                    else Some (TBig (digits_value ds), r2))
               | _ \<Rightarrow>
                   (if r1 \<noteq> [] \<and> is_ident_start (hd r1) then None
                    else Some (TNum (digits_value ds) 0, r1))))"

text \<open>
  The tokens of a text; the first argument bounds the number of steps, and the length of
  the text is enough. Only the space separates tokens (a line break after \<^verbatim>\<open>return\<close>
  would end the statement). Doubled operators, compound assignments and comments are not
  read.
\<close>

fun tokenize :: "nat \<Rightarrow> string \<Rightarrow> token list option" where
  "tokenize 0 cs = (if cs = [] then Some [] else None)"
| "tokenize (Suc n) cs =
     (case cs of
        [] \<Rightarrow> Some []
      | c # rest \<Rightarrow>
          if c = CHR '' '' then tokenize n rest
          else if is_digit c then
            (case lex_number cs of
               None \<Rightarrow> None
             | Some (tok, r) \<Rightarrow> map_option ((#) tok) (tokenize n r))
          else if is_ident_start c then
            map_option ((#) (TIdent (takeWhile is_ident_part cs)))
              (tokenize n (dropWhile is_ident_part cs))
          else if c \<in> set ''(){};,.*'' then map_option ((#) (TPunct [c])) (tokenize n rest)
          else if c \<in> set ''+-/'' then
            (if rest \<noteq> [] \<and>
                (hd rest = c \<or> hd rest = CHR ''='' \<or> (c = CHR ''/'' \<and> hd rest = CHR ''*''))
             then None
             else map_option ((#) (TPunct [c])) (tokenize n rest))
          else None)"

text \<open>The reserved words of the language: none of them is an identifier.\<close>

definition reserved :: "string list" where
  "reserved =
     [''break'', ''case'', ''catch'', ''class'', ''const'', ''continue'', ''debugger'',
      ''default'', ''delete'', ''do'', ''else'', ''enum'', ''export'', ''extends'', ''false'',
      ''finally'', ''for'', ''function'', ''if'', ''import'', ''in'', ''instanceof'', ''new'',
      ''null'', ''return'', ''super'', ''switch'', ''this'', ''throw'', ''true'', ''try'',
      ''typeof'', ''var'', ''void'', ''while'', ''with'']"

text \<open>Identifiers with a meaning of their own inside a function, which the host does not read.\<close>

definition unsupported :: "string list" where
  "unsupported =
     [''Math'', ''arguments'', ''eval'', ''let'', ''yield'', ''await'', ''async'', ''static'',
      ''implements'', ''interface'', ''package'', ''private'', ''protected'', ''public'']"

definition identifier_expr :: "string \<Rightarrow> expr option" where
  "identifier_expr name =
     (if name \<in> set reserved \<or> name \<in> set unsupported then None
      else Some (if name = ''x'' then Param X else if name = ''y'' then Param Y
                 else if name = ''t'' then Param T else Global name))"

type_synonym 'a parser = "token list \<Rightarrow> ('a \<times> token list) option"

text \<open>An operand followed by \<^verbatim>\<open>.\<close> or \<^verbatim>\<open>(\<close> is a member access or a call: not read.\<close>

definition postfix_follows :: "token list \<Rightarrow> bool" where
  "postfix_follows ts = (case ts of TPunct p # _ \<Rightarrow> p = ''.'' \<or> p = ''('' | _ \<Rightarrow> False)"

definition atom :: "expr \<Rightarrow> expr parser" where
  "atom a ts = (if postfix_follows ts then None else Some (a, ts))"

definition additive_op :: "string \<Rightarrow> binop option" where
  "additive_op p = (if p = ''+'' then Some Add else if p = ''-'' then Some Sub else None)"

definition multiplicative_op :: "string \<Rightarrow> binop option" where
  "multiplicative_op p = (if p = ''*'' then Some Mul else if p = ''/'' then Some Div else None)"

text \<open>A left-associative chain \<open>a op b op c ...\<close> of operands; the bound counts operators.\<close>

primrec chain_rest ::
  "nat \<Rightarrow> (string \<Rightarrow> binop option) \<Rightarrow> expr parser \<Rightarrow> expr \<Rightarrow> expr parser" where
  "chain_rest 0 ops operand a ts = None"
| "chain_rest (Suc n) ops operand a ts =
     (case ts of
        TPunct p # r \<Rightarrow>
          (case ops p of
             None \<Rightarrow> Some (a, ts)
           | Some bop \<Rightarrow>
               (case operand r of
                  None \<Rightarrow> None
                | Some (b, r1) \<Rightarrow> chain_rest n ops operand (Bin bop a b) r1))
      | _ \<Rightarrow> Some (a, ts))"

definition chain :: "(string \<Rightarrow> binop option) \<Rightarrow> expr parser \<Rightarrow> expr parser" where
  "chain ops operand ts =
     (case operand ts of
        None \<Rightarrow> None
      | Some (a, r) \<Rightarrow> chain_rest (Suc (length r)) ops operand a r)"

primrec arguments_rest :: "nat \<Rightarrow> expr parser \<Rightarrow> expr list \<Rightarrow> expr list parser" where
  "arguments_rest 0 argument as ts = None"
| "arguments_rest (Suc n) argument as ts =
     (case ts of
        TPunct p # r \<Rightarrow>
          (if p = '')'' then Some (as, r)
           else if p = '','' then
             (case argument r of
                None \<Rightarrow> None
              | Some (a, r1) \<Rightarrow> arguments_rest n argument (as @ [a]) r1)
           else None)
      | _ \<Rightarrow> None)"

text \<open>The arguments of a call, after its opening parenthesis.\<close>

definition arguments :: "expr parser \<Rightarrow> expr list parser" where
  "arguments argument ts =
     (if take 1 ts = [TPunct '')''] then Some ([], drop 1 ts)
      else (case argument ts of
              None \<Rightarrow> None
            | Some (a, r) \<Rightarrow> arguments_rest (Suc (length r)) argument [a] r))"

definition math_functions :: "string list" where
  "math_functions = [''sin'', ''cos'', ''sqrt'', ''exp'', ''abs'', ''random'']"

text \<open>What follows the identifier \<^verbatim>\<open>Math\<close>: a constant or a call of a library function.\<close>

definition math_member :: "expr parser \<Rightarrow> expr parser" where
  "math_member nested ts =
     (case ts of
        TPunct p # TIdent member # r \<Rightarrow>
          (if p \<noteq> ''.'' then None
           else if member = ''PI'' then atom (MathConst member) r
           else if member \<in> set math_functions \<and> take 1 r = [TPunct ''('']  then
             (case arguments nested (drop 1 r) of
                None \<Rightarrow> None
              | Some (as, r1) \<Rightarrow> atom (MathCall member as) r1)
           else None)
      | _ \<Rightarrow> None)"

definition primary :: "expr parser \<Rightarrow> expr parser" where
  "primary nested ts =
     (case ts of
        TNum m k # r \<Rightarrow> atom (Lit (real m / 10 ^ k)) r
      | TBig m # r \<Rightarrow> atom (BigLit (int m)) r
      | TPunct p # r \<Rightarrow>
          (if p = ''('' then
             (case nested r of
                None \<Rightarrow> None
              | Some (a, r1) \<Rightarrow> if take 1 r1 = [TPunct '')''] then atom a (drop 1 r1) else None)
           else None)
      | TIdent name # r \<Rightarrow>
          (if name = ''Math'' then math_member nested r
           else (case identifier_expr name of None \<Rightarrow> None | Some a \<Rightarrow> atom a r))
      | _ \<Rightarrow> None)"

fun unary :: "expr parser \<Rightarrow> expr parser" where
  "unary operand (TPunct p # r) =
     (if p = ''-'' then
        (case unary operand r of None \<Rightarrow> None | Some (a, r1) \<Rightarrow> Some (Neg a, r1))
      else operand (TPunct p # r))"
| "unary operand ts = operand ts"

text \<open>Expressions nested at most \<open>n\<close> deep in parentheses and argument lists.\<close>

primrec expression :: "nat \<Rightarrow> expr parser" where
  "expression 0 = (\<lambda>ts. None)"
| "expression (Suc n) =
     chain additive_op (chain multiplicative_op (unary (primary (expression n))))"

definition template_head :: "token list" where
  "template_head = [TIdent ''try'', TPunct ''{'', TIdent ''return'']"

definition template_tail :: "token list" where
  "template_tail =
     [TPunct '';'', TPunct ''}'', TIdent ''catch'', TPunct ''('', TIdent ''e'', TPunct '')'',
      TPunct ''{'', TIdent ''return'', TNum 0 0, TPunct '';'', TPunct ''}'']"

definition parse_body :: "token list \<Rightarrow> stmt list option" where
  "parse_body ts =
     (if take 3 ts \<noteq> template_head then None
      else (case expression (length ts) (drop 3 ts) of
              None \<Rightarrow> None
            | Some (a, r) \<Rightarrow> if r = template_tail then Some (template a) else None))"

definition parse_text :: "string \<Rightarrow> stmt list option" where
  "parse_text text =
     (case tokenize (length text) text of None \<Rightarrow> None | Some ts \<Rightarrow> parse_body ts)"

text \<open>The reference host's \<^verbatim>\<open>new Function('x', 'y', 't', text)\<close>.\<close>

definition new_Function :: "string \<Rightarrow> exn + world evaluator" where
  "new_Function text =
     (case parse_text text of
        None \<Rightarrow> Inl SyntaxError
      | Some stmts \<Rightarrow> Inr (call_function stmts))"

text \<open>
  A world with the three global constants of the language and no other binding, and
  with the given random numbers to come.
\<close>

definition standard_world :: "real list \<Rightarrow> world" where
  "standard_world rs =
     \<lparr> globals = [(''Infinity'', Number PosInfinity), (''NaN'', Number NaN),
                  (''undefined'', Undefined)],
       random_source = rs \<rparr>"

section \<open>Vocabulary of the properties\<close>





text \<open>The normalisation that \<^verbatim>\<open>updateGraph\<close> applies: NaN becomes 0, nothing else changes.\<close>

definition normalize :: "number \<Rightarrow> number" where
  "normalize n = (if n = NaN then Finite 0 else n)"

text \<open>
  \<open>numeric f g\<close>: on numbers, the compiled function \<open>f\<close> is the function \<open>g\<close> of its three
  arguments: it returns a number, it does not throw, and it neither depends on the world
  nor changes it.
\<close>

definition numeric :: "'w evaluator \<Rightarrow> (number \<Rightarrow> number \<Rightarrow> number \<Rightarrow> number) \<Rightarrow> bool" where
  "numeric f g =
     (\<forall>x z t w. f (Number x) (Number z) (Number t) w = (Inr (Number (g x z t)), w))"

text \<open>
  The array that the loop started at index \<open>i\<close> leaves behind when the compiled function
  is \<open>g\<close>: the height cells from \<open>i\<close> on are recomputed from the two cells beside them.
\<close>

definition written ::
  "(number \<Rightarrow> number \<Rightarrow> number \<Rightarrow> number) \<Rightarrow> number \<Rightarrow> nat \<Rightarrow> number list \<Rightarrow> number list" where
  "written g t i vs =
     map (\<lambda>j. if i \<le> j \<and> j mod 3 = 1 then normalize (g (vs ! (j - 1)) (vs ! (j + 1)) t)
              else vs ! j)
       [0..<length vs]"

text \<open>
  What happens to a mounted component: the browser runs a frame at a clock reading, the
  framework binds a new input value and calls \<^verbatim>\<open>ngOnChanges\<close>, the window is resized
  (the handler runs while it is registered), the component is destroyed. An exception
  leaves a handler; the state it has reached stays.
\<close>

datatype event =
    Frame int
  | FormulaInput string
  | ColorInput string
  | AnimatedInput bool
  | TimeScaleInput number
  | WindowResize number number
  | Destroy

fun fire :: "(string \<Rightarrow> exn + 'w evaluator) \<Rightarrow> event \<Rightarrow> 'w visualizer \<Rightarrow> 'w visualizer" where
  "fire nf (Frame now) s = snd (browser_frame now s)"
| "fire nf (FormulaInput text) s = snd (setFormula nf text s)"
| "fire nf (ColorInput c) s = snd (ngOnChanges nf False True (s\<lparr>color := c\<rparr>))"
| "fire nf (AnimatedInput a) s = snd (ngOnChanges nf False False (s\<lparr>isAnimated := a\<rparr>))"
| "fire nf (TimeScaleInput k) s = snd (ngOnChanges nf False False (s\<lparr>timeScale := k\<rparr>))"
| "fire nf (WindowResize cw ch) s =
     (if resizeListener s then snd (onWindowResize cw ch s) else s)"
| "fire nf Destroy s = ngOnDestroy s"


text \<open>A component constructed at clock reading \<open>now\<close>, with its four inputs bound.\<close>

definition created ::
  "int \<Rightarrow> 'w \<Rightarrow> string \<Rightarrow> string \<Rightarrow> bool \<Rightarrow> number \<Rightarrow> 'w visualizer" where
  "created now w text c a k =
     (construct now w)\<lparr>formula := text, color := c, isAnimated := a, timeScale := k\<rparr>"



text \<open>
  The examples: a component on the reference host, constructed at clock reading 0 with
  the given formula text, in a 800 by 600 container, over the given position array, its
  view initialised at clock reading 0.
\<close>

definition example_world :: world where
  "example_world = standard_world [1 / 4, 1 / 2, 3 / 4, 1 / 8]"

definition mounted :: "number list \<Rightarrow> string \<Rightarrow> world visualizer" where
  "mounted plane text =
     snd (ngAfterViewInit new_Function plane (Finite 800) (Finite 600) 0
            (created 0 example_world text ''#22d3ee'' True (Finite 1)))"

section \<open>The loop of updateGraph\<close>

lemma length_written [simp]: "length (written g t i vs) = length vs"
  by (simp add: written_def)

lemma written_step:
  assumes "3 dvd i" "3 dvd length vs" "i < length vs"
  shows "written g t (i + 3) (vs[i + 1 := normalize (g (vs ! i) (vs ! (i + 2)) t)]) = written g t i vs"
proof (rule nth_equalityI)
  show "length (written g t (i + 3) (vs[i + 1 := normalize (g (vs ! i) (vs ! (i + 2)) t)])) =
        length (written g t i vs)"
    by simp
next
  fix j
  assume "j < length (written g t (i + 3) (vs[i + 1 := normalize (g (vs ! i) (vs ! (i + 2)) t)]))"
  then have j: "j < length vs" by simp
  from assms have i2: "i + 2 < length vs" by presburger
  from assms(1) have im: "i mod 3 = 0" by presburger
  consider "j = i + 1" | "j < i + 3" "j \<noteq> i + 1" | "i + 3 \<le> j" by linarith
  then show "written g t (i + 3) (vs[i + 1 := normalize (g (vs ! i) (vs ! (i + 2)) t)]) ! j =
        written g t i vs ! j"
  proof cases
    case 1
    then have "j mod 3 = 1" using im by presburger
    with 1 j i2 show ?thesis by (simp add: written_def)
  next
    case 2
    then have "\<not> (i \<le> j \<and> j mod 3 = 1)" using im by presburger
    with 2 j show ?thesis by (auto simp add: written_def)
  next
    case 3
    with j show ?thesis by (simp add: written_def)
  qed
qed

lemma vertex_loop_numeric:
  assumes "numeric f g"
  shows "3 dvd i \<Longrightarrow> 3 dvd length vs \<Longrightarrow> vertex_loop f t i vs w = (None, written g t i vs, w)"
proof (induction "length vs - i" arbitrary: i vs rule: less_induct)
  case less
  show ?case
  proof (cases "i < length vs")
    case False
    then have "written g t i vs = vs"
      by (intro nth_equalityI) (simp_all add: written_def)
    with False show ?thesis by (simp add: vertex_loop.simps [of f t i vs w])
  next
    case True
    with less.prems have i2: "i + 2 < length vs" by presburger
    let ?n = "g (vs ! i) (vs ! (i + 2)) t"
    let ?vs = "vs[i + 1 := normalize ?n]"
    have call: "f (float32_get vs i) (float32_get vs (i + 2)) (Number t) w = (Inr (Number ?n), w)"
      using assms True i2 by (simp add: numeric_def float32_get_def)
    have "vertex_loop f t (i + 3) ?vs w = (None, written g t (i + 3) ?vs, w)"
      using less.prems True by (intro less.hyps) auto
    then have "vertex_loop f t (i + 3) ?vs w = (None, written g t i vs, w)"
      using written_step [OF less.prems(1) less.prems(2) True] by simp
    then show ?thesis
      using True i2 call
      by (cases "?n = NaN")
        (simp_all add: vertex_loop.simps [of f t i vs w] isNaN_def float32_set_def normalize_def)
  qed
qed


lemma written_single: "written g t 0 [a, b, c] = [a, normalize (g a c t), c]"
  by (simp add: written_def upt_rec)

lemma updateGraph_numeric:
  assumes "numeric f g" "compiledFunc s = Some f"
    and "wireframeMesh s = Some wire" "solidMesh s = Some solid"
    and "3 dvd length wire" "3 dvd length solid"
  shows "updateGraph t s =
    (None, s\<lparr>wireframeMesh := Some (written g t 0 wire), solidMesh := Some (written g t 0 solid)\<rparr>)"
  using assms by (simp add: updateGraph_def vertex_loop_numeric)

lemma updateGraph_idle:
  "wireframeMesh s = None \<or> compiledFunc s = None \<Longrightarrow> updateGraph t s = (None, s)"
  by (auto simp: updateGraph_def split: option.splits)

text \<open>\<^verbatim>\<open>updateGraph\<close> writes the two position arrays and lets the compiled function act on
  the world; it touches nothing else.\<close>

lemma updateGraph_frame:
  "\<exists>wire solid w. snd (updateGraph t s) = s\<lparr>wireframeMesh := wire, solidMesh := solid, world := w\<rparr>"
proof (cases "wireframeMesh s")
  case None
  then have "snd (updateGraph t s) = s\<lparr>wireframeMesh := wireframeMesh s, solidMesh := solidMesh s, world := world s\<rparr>"
    by (simp add: updateGraph_idle)
  then show ?thesis by blast
next
  case (Some wire)
  show ?thesis
  proof (cases "compiledFunc s")
    case None
    then have "snd (updateGraph t s) = s\<lparr>wireframeMesh := wireframeMesh s, solidMesh := solidMesh s, world := world s\<rparr>"
      by (simp add: updateGraph_idle)
    then show ?thesis by blast
  next
    case f: (Some f)
    show ?thesis
    proof (cases "solidMesh s")
      case None
      with Some f have "snd (updateGraph t s) = s\<lparr>wireframeMesh := wireframeMesh s, solidMesh := solidMesh s, world := world s\<rparr>"
        by (simp add: updateGraph_def)
      then show ?thesis by blast
    next
      case solid: (Some solid)
      obtain r1 wire' w1 where l1: "vertex_loop f t 0 wire (world s) = (r1, wire', w1)"
        by (cases "vertex_loop f t 0 wire (world s)") auto
      obtain r2 solid' w2 where l2: "vertex_loop f t 0 solid w1 = (r2, solid', w2)"
        by (cases "vertex_loop f t 0 solid w1") auto
      show ?thesis
      proof (cases r1)
        case None
        with Some f solid l1 l2
        have "snd (updateGraph t s) = s\<lparr>wireframeMesh := Some wire', solidMesh := Some solid', world := w2\<rparr>"
          by (simp add: updateGraph_def)
        then show ?thesis by blast
      next
        case e: (Some e)
        with Some f solid l1
        have "snd (updateGraph t s) = s\<lparr>wireframeMesh := Some wire', solidMesh := solidMesh s, world := w1\<rparr>"
          by (simp add: updateGraph_def)
        then show ?thesis by blast
      qed
    qed
  qed
qed

section \<open>Mounting\<close>

lemma mount_numeric:
  assumes "nf (body (formula s)) = Inr f" "numeric f g" "3 dvd length plane"
  shows "ngAfterViewInit nf plane cw ch now s =
    (None, s\<lparr>scene := True, camera_fov := Finite 60, camera_aspect := num_div cw ch,
              renderer_size := (cw, ch), material_color := color s,
              wireframeMesh := Some (if isAnimated s
                 then written g (frame_time now s) 0 (written g (Finite 0) 0 plane)
                 else written g (Finite 0) 0 plane),
              solidMesh := Some (if isAnimated s
                 then written g (frame_time now s) 0 (written g (Finite 0) 0 plane)
                 else written g (Finite 0) 0 plane),
              animationFrameId := Some (nextFrameId s),
              compiledFunc := Some f,
              pendingFrames := pendingFrames s @ [nextFrameId s],
              nextFrameId := Suc (nextFrameId s),
              resizeListener := True,
              renders := Suc (renders s)\<rparr>)"
  using assms
  by (simp add: ngAfterViewInit_def createGraphMeshes_def compileFormula_def initThree_def
      animate_def schedule_next_def requestAnimationFrame_def render_def frame_time_def
      updateGraph_numeric [where f = f and g = g])

section \<open>The reference host on the example formulas\<close>

lemma parse_default:
  "parse_text (body ''Math.sin(Math.sqrt(x*x + y*y))'') =
     Some (template (MathCall ''sin'' [MathCall ''sqrt''
       [Bin Add (Bin Mul (Param X) (Param X)) (Bin Mul (Param Y) (Param Y))]]))"
  by code_simp

lemma parse_product: "parse_text (body ''x*y'') = Some (template (Bin Mul (Param X) (Param Y)))"
  by code_simp



lemma parse_time: "parse_text (body ''t'') = Some (template (Param T))"
  by code_simp


lemma parse_random: "parse_text (body ''Math.random()'') = Some (template (MathCall ''random'' []))"
  by code_simp

lemma parse_unbound: "parse_text (body ''foo'') = Some (template (Global ''foo''))"
  by code_simp

lemma parse_loop: "parse_text (body ''while(true){}'') = None"
  by code_simp

lemma numeric_product:
  "numeric (call_function (template (Bin Mul (Param X) (Param Y)))) (\<lambda>x z t. num_mul x z)"
  by (simp add: numeric_def call_function_def template_def js_binop_def)



lemma numeric_time: "numeric (call_function (template (Param T))) (\<lambda>x z t. t)"
  by (simp add: numeric_def call_function_def template_def)

lemma new_Function_parsed:
  "parse_text text = Some stmts \<Longrightarrow> new_Function text = Inr (call_function stmts)"
  by (simp add: new_Function_def)

lemma three_cells: "3 dvd length [a, b, c]"
  by (simp add: numeral_3_eq_3)

lemma mounted_numeric:
  assumes "parse_text (body text) = Some (template a)"
    and "numeric (call_function (template a)) g" and "3 dvd length plane"
  shows "mounted plane text =
    (created 0 example_world text ''#22d3ee'' True (Finite 1))
      \<lparr>scene := True, camera_fov := Finite 60, camera_aspect := Finite (4 / 3),
       renderer_size := (Finite 800, Finite 600), material_color := ''#22d3ee'',
       wireframeMesh := Some (written g (Finite 0) 0 (written g (Finite 0) 0 plane)),
       solidMesh := Some (written g (Finite 0) 0 (written g (Finite 0) 0 plane)),
       animationFrameId := Some 1,
       compiledFunc := Some (call_function (template a)),
       pendingFrames := [1], nextFrameId := 2, resizeListener := True, renders := 1\<rparr>"
proof -
  let ?s = "created 0 example_world text ''#22d3ee'' True (Finite 1)"
  have "new_Function (body (formula ?s)) = Inr (call_function (template a))"
    using assms(1) by (simp add: new_Function_parsed created_def)
  from mount_numeric [where nf = new_Function and s = ?s and plane = plane and g = g
      and f = "call_function (template a)" and cw = "Finite 800" and ch = "Finite 600" and now = 0]
    this assms(2) assms(3)
  show ?thesis
    by (simp add: mounted_def created_def construct_def frame_time_def)
qed

lemma mounted_product:
  "mounted [Finite 2, Finite 0, Finite 3] ''x*y'' =
    (created 0 example_world ''x*y'' ''#22d3ee'' True (Finite 1))
      \<lparr>scene := True, camera_fov := Finite 60, camera_aspect := Finite (4 / 3),
       renderer_size := (Finite 800, Finite 600), material_color := ''#22d3ee'',
       wireframeMesh := Some [Finite 2, Finite 6, Finite 3],
       solidMesh := Some [Finite 2, Finite 6, Finite 3],
       animationFrameId := Some 1,
       compiledFunc := Some (call_function (template (Bin Mul (Param X) (Param Y)))),
       pendingFrames := [1], nextFrameId := 2, resizeListener := True, renders := 1\<rparr>"
  using mounted_numeric [OF parse_product numeric_product three_cells]
  by (simp add: written_single normalize_def)







lemma call_time: "call_function (template (Param T)) x y t w = (Inr t, w)"
  by (simp add: call_function_def template_def)

lemma animate_numeric:
  assumes "numeric f g" and "compiledFunc s = Some f"
    and "wireframeMesh s = Some wire" and "solidMesh s = Some solid"
    and "3 dvd length wire" and "3 dvd length solid" and "scene s" and "isAnimated s"
  shows "animate now s =
    (None, s\<lparr>animationFrameId := Some (nextFrameId s),
              pendingFrames := pendingFrames s @ [nextFrameId s],
              nextFrameId := Suc (nextFrameId s),
              wireframeMesh := Some (written g (frame_time now s) 0 wire),
              solidMesh := Some (written g (frame_time now s) 0 solid),
              renders := Suc (renders s)\<rparr>)"
proof -
  let ?s = "schedule_next s"
  have "updateGraph (frame_time now ?s) ?s =
      (None, ?s\<lparr>wireframeMesh := Some (written g (frame_time now ?s) 0 wire),
                 solidMesh := Some (written g (frame_time now ?s) 0 solid)\<rparr>)"
    using assms
    by (intro updateGraph_numeric [where f = f])
      (simp_all add: schedule_next_def requestAnimationFrame_def)
  moreover have "frame_time now ?s = frame_time now s" "scene ?s" "isAnimated ?s"
    using assms by (simp_all add: frame_time_def schedule_next_def requestAnimationFrame_def)
  ultimately show ?thesis
    by (simp add: animate_def render_def)
      (simp add: schedule_next_def requestAnimationFrame_def)
qed

lemma setFormula_accepted:
  assumes "nf (body text) = Inr f" and "scene s"
  shows "setFormula nf text s =
     (if isAnimated s then (None, s\<lparr>formula := text, compiledFunc := Some f\<rparr>)
      else updateGraph (Finite 0) (s\<lparr>formula := text, compiledFunc := Some f\<rparr>))"
proof (cases "isAnimated s")
  case True
  with assms show ?thesis
    by (simp add: setFormula_def ngOnChanges_def compileFormula_def Let_def)
next
  case False
  obtain r s2 where u: "updateGraph (Finite 0) (s\<lparr>formula := text, compiledFunc := Some f\<rparr>) = (r, s2)"
    by (cases "updateGraph (Finite 0) (s\<lparr>formula := text, compiledFunc := Some f\<rparr>)") auto
  with assms False show ?thesis
    by (cases r) (simp_all add: setFormula_def ngOnChanges_def compileFormula_def Let_def)
qed

lemma frame_product:
  "browser_frame 5000 (mounted [Finite 2, Finite 0, Finite 3] ''x*y'') =
     (None, (mounted [Finite 2, Finite 0, Finite 3] ''x*y'')
        \<lparr>animationFrameId := Some 2, pendingFrames := [2], nextFrameId := 3, renders := 2\<rparr>)"
proof -
  let ?s = "(mounted [Finite 2, Finite 0, Finite 3] ''x*y'')\<lparr>pendingFrames := []\<rparr>"
  have "animate 5000 ?s = (None, ?s\<lparr>animationFrameId := Some (nextFrameId ?s),
              pendingFrames := pendingFrames ?s @ [nextFrameId ?s],
              nextFrameId := Suc (nextFrameId ?s),
              wireframeMesh := Some (written (\<lambda>x z t. num_mul x z) (frame_time 5000 ?s) 0
                 [Finite 2, Finite 6, Finite 3]),
              solidMesh := Some (written (\<lambda>x z t. num_mul x z) (frame_time 5000 ?s) 0
                 [Finite 2, Finite 6, Finite 3]),
              renders := Suc (renders ?s)\<rparr>)"
    by (rule animate_numeric [OF numeric_product _ _ _ three_cells three_cells])
      (simp_all add: mounted_product created_def construct_def)
  then show ?thesis
    by (simp add: browser_frame_def mounted_product created_def construct_def written_single
        normalize_def)
qed

lemma new_Function_time: "new_Function (body ''t'') = Inr (call_function (template (Param T)))"
  by (simp add: new_Function_parsed parse_time)

section \<open>What the operations leave alone\<close>

lemma updateGraph_fields:
  "startTime (snd (updateGraph t s)) = startTime s \<and>
   pendingFrames (snd (updateGraph t s)) = pendingFrames s \<and>
   nextFrameId (snd (updateGraph t s)) = nextFrameId s \<and>
   animationFrameId (snd (updateGraph t s)) = animationFrameId s \<and>
   resizeListener (snd (updateGraph t s)) = resizeListener s \<and>
   renders (snd (updateGraph t s)) = renders s \<and>
   scene (snd (updateGraph t s)) = scene s \<and>
   isAnimated (snd (updateGraph t s)) = isAnimated s \<and>
   timeScale (snd (updateGraph t s)) = timeScale s \<and>
   compiledFunc (snd (updateGraph t s)) = compiledFunc s"
proof -
  from updateGraph_frame [of t s] obtain wire solid w where
    "snd (updateGraph t s) = s\<lparr>wireframeMesh := wire, solidMesh := solid, world := w\<rparr>"
    by blast
  then show ?thesis by simp
qed


lemma schedule_next_fields:
  "schedule_next s = s\<lparr>pendingFrames := pendingFrames s @ [nextFrameId s],
      nextFrameId := Suc (nextFrameId s), animationFrameId := Some (nextFrameId s)\<rparr>"
  by (simp add: schedule_next_def requestAnimationFrame_def)

lemma animate_fields:
  "startTime (snd (animate now s)) = startTime s \<and>
   pendingFrames (snd (animate now s)) = pendingFrames s @ [nextFrameId s] \<and>
   nextFrameId (snd (animate now s)) = Suc (nextFrameId s) \<and>
   animationFrameId (snd (animate now s)) = Some (nextFrameId s) \<and>
   resizeListener (snd (animate now s)) = resizeListener s \<and>
   compiledFunc (snd (animate now s)) = compiledFunc s"
proof -
  let ?s = "schedule_next s"
  obtain e r where u: "updateGraph (frame_time now ?s) ?s = (e, r)"
    by (cases "updateGraph (frame_time now ?s) ?s") auto
  with updateGraph_fields [of "frame_time now ?s" ?s]
  have "startTime r = startTime ?s \<and> pendingFrames r = pendingFrames ?s \<and>
      nextFrameId r = nextFrameId ?s \<and> animationFrameId r = animationFrameId ?s \<and>
      resizeListener r = resizeListener ?s \<and> compiledFunc r = compiledFunc ?s"
    by simp
  with u show ?thesis
    by (cases e) (simp_all add: animate_def Let_def render_def schedule_next_fields)
qed





section \<open>The frame queue\<close>











lemma mount_compiledFunc:
  "compiledFunc (snd (ngAfterViewInit nf plane cw ch now s)) =
     (case nf (body (formula s)) of Inl e \<Rightarrow> None | Inr f \<Rightarrow> Some f)"
proof -
  let ?c = "compileFormula nf (initThree cw ch s)"
  let ?m = "?c\<lparr>wireframeMesh := Some plane, solidMesh := Some plane, material_color := color ?c\<rparr>"
  have c: "compiledFunc ?m = (case nf (body (formula s)) of Inl e \<Rightarrow> None | Inr f \<Rightarrow> Some f)"
    by (simp add: compileFormula_def initThree_def split: sum.splits)
  obtain e r where u: "updateGraph (Finite 0) ?m = (e, r)"
    by (cases "updateGraph (Finite 0) ?m") auto
  with updateGraph_fields [of "Finite 0" ?m] have r: "compiledFunc r = compiledFunc ?m"
    by simp
  obtain e2 r2 where a: "animate now r = (e2, r2)"
    by (cases "animate now r") auto
  with animate_fields [of now r] have "compiledFunc r2 = compiledFunc r"
    by simp
  with c r u a show ?thesis
    by (cases e; cases e2) (simp_all add: ngAfterViewInit_def createGraphMeshes_def)
qed

lemma setFormula_compiledFunc:
  assumes "scene s"
  shows "compiledFunc (snd (setFormula nf text s)) =
     (case nf (body text) of Inl e \<Rightarrow> None | Inr f \<Rightarrow> Some f)"
proof -
  let ?c = "compileFormula nf (s\<lparr>formula := text\<rparr>)"
  have c: "compiledFunc ?c = (case nf (body text) of Inl e \<Rightarrow> None | Inr f \<Rightarrow> Some f)"
    by (simp add: compileFormula_def split: sum.splits)
  obtain e r where u: "updateGraph (Finite 0) ?c = (e, r)"
    by (cases "updateGraph (Finite 0) ?c") auto
  with updateGraph_fields [of "Finite 0" ?c] have "compiledFunc r = compiledFunc ?c"
    by simp
  with c u assms show ?thesis
    by (cases e) (simp_all add: setFormula_def ngOnChanges_def Let_def)
qed

section \<open>Which formula texts are compiled\<close>

text \<open>
  C1, as stated, fails. The component's default formula, which reads two members of
  \<^verbatim>\<open>Math\<close>, is compiled; so is \<^verbatim>\<open>foo\<close>, an identifier that is neither a variable nor on
  any list; and the compiled \<^verbatim>\<open>Math.random()\<close> changes the world it runs in.
\<close>

theorem compile_accepts_member_access:
  "compiledFunc (compileFormula new_Function (construct 0 example_world)) =
     Some (call_function (template (MathCall ''sin'' [MathCall ''sqrt''
       [Bin Add (Bin Mul (Param X) (Param X)) (Bin Mul (Param Y) (Param Y))]]))) \<and>
   compiledFunc (compileFormula new_Function ((construct 0 example_world)\<lparr>formula := ''foo''\<rparr>)) =
     Some (call_function (template (Global ''foo''))) \<and>
   compiledFunc (compileFormula new_Function
       ((construct 0 example_world)\<lparr>formula := ''Math.random()''\<rparr>)) =
     Some (call_function (template (MathCall ''random'' []))) \<and>
   snd (call_function (template (MathCall ''random'' [])) (Number (Finite 2)) (Number (Finite 3))
          (Number (Finite 0)) example_world) \<noteq> example_world"
  by (simp add: compileFormula_def construct_def new_Function_parsed parse_default parse_unbound
      parse_random call_function_def template_def math_call_def example_world_def
      standard_world_def)

text \<open>
  C1, amended. The component checks nothing itself. For every host, \<^verbatim>\<open>compileFormula\<close>
  compiles the formula text exactly when the host's \<^verbatim>\<open>Function\<close> constructor accepts the
  template body around it; the evaluator is then the host's function as it is, a
  rejected text leaves no evaluator, and no other field changes. The evaluator in use
  after the view was initialised, and after a new formula was bound, is determined in this
  way by the text alone.
\<close>

theorem compile_delegates:
  "compileFormula nf s =
     s\<lparr>compiledFunc := (case nf (body (formula s)) of Inl e \<Rightarrow> None | Inr f \<Rightarrow> Some f)\<rparr> \<and>
   compiledFunc (snd (ngAfterViewInit nf plane cw ch now s)) =
     (case nf (body (formula s)) of Inl e \<Rightarrow> None | Inr f \<Rightarrow> Some f) \<and>
   (scene s \<longrightarrow>
      compiledFunc (snd (setFormula nf text s)) =
        (case nf (body text) of Inl e \<Rightarrow> None | Inr f \<Rightarrow> Some f))"
  by (simp add: mount_compiledFunc setFormula_compiledFunc)
    (simp add: compileFormula_def split: sum.splits)

text \<open>
  C1, instances on the reference host: the loop statement of the spec's example is
  rejected, by \<^verbatim>\<open>compileFormula\<close> and when it is the formula at view initialisation; the
  unknown identifier \<^verbatim>\<open>foo\<close>, bound as the new formula, is compiled.
\<close>

theorem compile_delegates_witness:
  "compileFormula new_Function ((construct 0 example_world)\<lparr>formula := ''while(true){}''\<rparr>) =
     (construct 0 example_world)\<lparr>formula := ''while(true){}'', compiledFunc := None\<rparr> \<and>
   compiledFunc (mounted [Finite 2, Finite 0, Finite 3] ''while(true){}'') = None \<and>
   scene (mounted [Finite 2, Finite 0, Finite 3] ''x*y'') \<and>
   compiledFunc (snd (setFormula new_Function ''foo'' (mounted [Finite 2, Finite 0, Finite 3] ''x*y''))) =
     Some (call_function (template (Global ''foo'')))"
proof -
  have s: "scene (mounted [Finite 2, Finite 0, Finite 3] ''x*y'')"
    by (simp add: mounted_product)
  from compile_delegates [of new_Function
      "(construct 0 example_world)\<lparr>formula := ''while(true){}''\<rparr>" _ _ _ _ "''foo''"]
    compile_delegates [of new_Function "created 0 example_world ''while(true){}'' ''#22d3ee'' True (Finite 1)"
      "[Finite 2, Finite 0, Finite 3]" "Finite 800" "Finite 600" 0 "''foo''"]
    compile_delegates [of new_Function "mounted [Finite 2, Finite 0, Finite 3] ''x*y''" _ _ _ _ "''foo''"]
    s
  show ?thesis
    by (simp add: new_Function_def parse_loop parse_unbound mounted_def created_def)
qed

section \<open>A rejected formula\<close>

text \<open>
  C2, as stated, fails. A component shows \<^verbatim>\<open>x*y\<close>; the text \<^verbatim>\<open>while(true){}\<close> arrives.
  The call completes without returning an error, and the evaluator of \<^verbatim>\<open>x*y\<close> is not
  left in place: the component has no evaluator afterwards.
\<close>

theorem evaluator_dropped_on_rejection:
  "compiledFunc (mounted [Finite 2, Finite 0, Finite 3] ''x*y'') =
     Some (call_function (template (Bin Mul (Param X) (Param Y)))) \<and>
   setFormula new_Function ''while(true){}'' (mounted [Finite 2, Finite 0, Finite 3] ''x*y'') =
     (None, (mounted [Finite 2, Finite 0, Finite 3] ''x*y'')
              \<lparr>formula := ''while(true){}'', compiledFunc := None\<rparr>)"
  by (simp add: mounted_product setFormula_def ngOnChanges_def compileFormula_def
      new_Function_def parse_loop created_def construct_def)

text \<open>
  C2, amended. For every text the host rejects, on a component whose scene exists, the
  binding of the new formula completes without an error value, the component has no
  evaluator afterwards, and both position arrays and every other field are as before;
  from then on every \<^verbatim>\<open>updateGraph\<close> returns at once, and a step of the animation loop
  only schedules the next step and renders: the surface keeps the heights it had.
\<close>

theorem rejected_formula:
  assumes "nf (body text) = Inl e" and "scene s"
  shows "setFormula nf text s = (None, s\<lparr>formula := text, compiledFunc := None\<rparr>) \<and>
         (\<forall>t. updateGraph t (s\<lparr>formula := text, compiledFunc := None\<rparr>) =
                (None, s\<lparr>formula := text, compiledFunc := None\<rparr>)) \<and>
         (\<forall>now. animate now (s\<lparr>formula := text, compiledFunc := None\<rparr>) =
                (None, render (schedule_next (s\<lparr>formula := text, compiledFunc := None\<rparr>))) \<and>
                wireframeMesh (snd (animate now (s\<lparr>formula := text, compiledFunc := None\<rparr>))) =
                  wireframeMesh s \<and>
                solidMesh (snd (animate now (s\<lparr>formula := text, compiledFunc := None\<rparr>))) =
                  solidMesh s)"
proof -
  let ?s = "s\<lparr>formula := text, compiledFunc := None\<rparr>"
  have 1: "setFormula nf text s = (None, ?s)"
    using assms
    by (simp add: setFormula_def ngOnChanges_def compileFormula_def updateGraph_idle Let_def)
  have 2: "updateGraph t ?s = (None, ?s)" for t
    by (simp add: updateGraph_idle)
  have "updateGraph t (schedule_next ?s) = (None, schedule_next ?s)" for t
    by (simp add: updateGraph_idle schedule_next_fields)
  with assms(2) have 3: "animate now ?s = (None, render (schedule_next ?s))" for now
    by (simp add: animate_def Let_def schedule_next_fields)
  have 4: "wireframeMesh (render (schedule_next ?s)) = wireframeMesh s"
    "solidMesh (render (schedule_next ?s)) = solidMesh s"
    by (simp_all add: render_def schedule_next_fields)
  from 1 2 3 4 show ?thesis by simp
qed

text \<open>C2, an instance: \<^verbatim>\<open>while(true){}\<close> arriving at the component that shows \<^verbatim>\<open>x*y\<close>.\<close>

theorem rejected_formula_witness:
  "new_Function (body ''while(true){}'') = Inl SyntaxError \<and>
   scene (mounted [Finite 2, Finite 0, Finite 3] ''x*y'') \<and>
   wireframeMesh (snd (setFormula new_Function ''while(true){}''
       (mounted [Finite 2, Finite 0, Finite 3] ''x*y''))) = Some [Finite 2, Finite 6, Finite 3] \<and>
   solidMesh (snd (setFormula new_Function ''while(true){}''
       (mounted [Finite 2, Finite 0, Finite 3] ''x*y''))) = Some [Finite 2, Finite 6, Finite 3] \<and>
   wireframeMesh (snd (animate 9000
       (snd (setFormula new_Function ''while(true){}''
          (mounted [Finite 2, Finite 0, Finite 3] ''x*y''))))) = Some [Finite 2, Finite 6, Finite 3]"
proof -
  have r: "new_Function (body ''while(true){}'') = Inl SyntaxError"
    by (simp add: new_Function_def parse_loop)
  have s: "scene (mounted [Finite 2, Finite 0, Finite 3] ''x*y'')"
    by (simp add: mounted_product)
  have m: "wireframeMesh (mounted [Finite 2, Finite 0, Finite 3] ''x*y'') =
             Some [Finite 2, Finite 6, Finite 3]"
          "solidMesh (mounted [Finite 2, Finite 0, Finite 3] ''x*y'') =
             Some [Finite 2, Finite 6, Finite 3]"
    by (simp_all add: mounted_product)
  note t = rejected_formula [of new_Function "''while(true){}''" SyntaxError
      "mounted [Finite 2, Finite 0, Finite 3] ''x*y''", OF r s]
  from t have a: "setFormula new_Function ''while(true){}''
        (mounted [Finite 2, Finite 0, Finite 3] ''x*y'') =
      (None, (mounted [Finite 2, Finite 0, Finite 3] ''x*y'')
               \<lparr>formula := ''while(true){}'', compiledFunc := None\<rparr>)"
    by (rule conjunct1)
  from t have b: "wireframeMesh (snd (animate 9000
        ((mounted [Finite 2, Finite 0, Finite 3] ''x*y'')
           \<lparr>formula := ''while(true){}'', compiledFunc := None\<rparr>))) =
      wireframeMesh (mounted [Finite 2, Finite 0, Finite 3] ''x*y'')"
    by blast
  from r s m a b show ?thesis by simp
qed

section \<open>Heights after an update\<close>




section \<open>Results that are not finite\<close>




section \<open>The two layers\<close>




section \<open>An accepted formula\<close>

text \<open>
  C6, as stated, fails. A component shows \<^verbatim>\<open>x*y\<close>; its last frame ran at clock reading
  5000, that is at \<open>t = 5\<close>. The formula \<^verbatim>\<open>t\<close> arrives and is compiled. While animation
  is on, the surface is not evaluated again: the height at the sample \<open>(2, 3)\<close> is still
  6, although the new evaluator gives 5 at \<open>t = 5\<close>. When animation has been switched
  off before, the surface is evaluated again, but at \<open>t = 0\<close>: the height is 0.
\<close>

theorem formula_change_not_reevaluated:
  "frame_time 5000 (mounted [Finite 2, Finite 0, Finite 3] ''x*y'') = Finite 5 \<and>
   wireframeMesh (snd (setFormula new_Function ''t''
       (snd (browser_frame 5000 (mounted [Finite 2, Finite 0, Finite 3] ''x*y''))))) =
     Some [Finite 2, Finite 6, Finite 3] \<and>
   compiledFunc (snd (setFormula new_Function ''t''
       (snd (browser_frame 5000 (mounted [Finite 2, Finite 0, Finite 3] ''x*y''))))) =
     Some (call_function (template (Param T))) \<and>
   call_function (template (Param T)) (Number (Finite 2)) (Number (Finite 3)) (Number (Finite 5))
       example_world = (Inr (Number (Finite 5)), example_world) \<and>
   wireframeMesh (snd (setFormula new_Function ''t''
       (fire new_Function (AnimatedInput False)
          (snd (browser_frame 5000 (mounted [Finite 2, Finite 0, Finite 3] ''x*y'')))))) =
     Some [Finite 2, Finite 0, Finite 3]"
proof -
  let ?m = "mounted [Finite 2, Finite 0, Finite 3] ''x*y''"
  let ?s = "?m\<lparr>animationFrameId := Some 2, pendingFrames := [2], nextFrameId := 3, renders := 2\<rparr>"
  have 1: "frame_time 5000 ?m = Finite 5"
    by (simp add: frame_time_def mounted_product created_def construct_def)
  have f: "scene ?s" "isAnimated ?s"
    by (simp_all add: mounted_product created_def construct_def)
  have 2: "setFormula new_Function ''t'' ?s =
      (None, ?s\<lparr>formula := ''t'', compiledFunc := Some (call_function (template (Param T)))\<rparr>)"
    using setFormula_accepted [of new_Function "''t''" _ ?s, OF new_Function_time f(1)] f(2)
    by simp
  let ?p = "?s\<lparr>isAnimated := False\<rparr>"
  let ?q = "?p\<lparr>formula := ''t'', compiledFunc := Some (call_function (template (Param T)))\<rparr>"
  have p: "scene ?p" "\<not> isAnimated ?p"
    by (simp_all add: mounted_product created_def construct_def)
  have "updateGraph (Finite 0) ?q =
      (None, ?q\<lparr>wireframeMesh := Some (written (\<lambda>x z t. t) (Finite 0) 0 [Finite 2, Finite 6, Finite 3]),
                 solidMesh := Some (written (\<lambda>x z t. t) (Finite 0) 0 [Finite 2, Finite 6, Finite 3])\<rparr>)"
    by (rule updateGraph_numeric [OF numeric_time _ _ _ three_cells three_cells])
      (simp_all add: mounted_product)
  with setFormula_accepted [of new_Function "''t''" _ ?p, OF new_Function_time p(1)] p(2)
  have "wireframeMesh (snd (setFormula new_Function ''t'' ?p)) = Some [Finite 2, Finite 0, Finite 3]"
    by (simp add: written_single normalize_def)
  moreover have "fire new_Function (AnimatedInput False) ?s = ?p"
    using f(1) by (simp add: ngOnChanges_def)
  ultimately have 3: "wireframeMesh (snd (setFormula new_Function ''t''
       (fire new_Function (AnimatedInput False) ?s))) = Some [Finite 2, Finite 0, Finite 3]"
    by simp
  have 4: "wireframeMesh ?s = Some [Finite 2, Finite 6, Finite 3]"
    by (simp add: mounted_product)
  from 1 2 3 4 show ?thesis
    by (simp add: frame_product call_time)
qed

text \<open>
  C6, amended. For every text the host accepts, on a component whose scene exists, the
  binding of the new formula replaces the evaluator; when animation is off it then runs
  \<^verbatim>\<open>updateGraph(0)\<close> with the new evaluator, and when animation is on it does nothing
  more (the next frame will use the new evaluator).
\<close>

theorem accepted_formula:
  assumes "nf (body text) = Inr f" and "scene s"
  shows "setFormula nf text s =
     (if isAnimated s then (None, s\<lparr>formula := text, compiledFunc := Some f\<rparr>)
      else updateGraph (Finite 0) (s\<lparr>formula := text, compiledFunc := Some f\<rparr>))"
  using assms by (rule setFormula_accepted)

text \<open>C6, an instance: the formula \<^verbatim>\<open>t\<close> arriving at the component that shows \<^verbatim>\<open>x*y\<close>.\<close>

theorem accepted_formula_witness:
  "setFormula new_Function ''t'' (mounted [Finite 2, Finite 0, Finite 3] ''x*y'') =
     (None, (mounted [Finite 2, Finite 0, Finite 3] ''x*y'')
        \<lparr>formula := ''t'', compiledFunc := Some (call_function (template (Param T)))\<rparr>) \<and>
   setFormula new_Function ''t''
      ((mounted [Finite 2, Finite 0, Finite 3] ''x*y'')\<lparr>isAnimated := False\<rparr>) =
     updateGraph (Finite 0)
       ((mounted [Finite 2, Finite 0, Finite 3] ''x*y'')
          \<lparr>isAnimated := False, formula := ''t'',
           compiledFunc := Some (call_function (template (Param T)))\<rparr>)"
proof -
  let ?s = "mounted [Finite 2, Finite 0, Finite 3] ''x*y''"
  have a: "scene ?s" "isAnimated ?s" "scene (?s\<lparr>isAnimated := False\<rparr>)"
    "\<not> isAnimated (?s\<lparr>isAnimated := False\<rparr>)"
    by (simp_all add: mounted_product created_def construct_def)
  from accepted_formula [of new_Function "''t''" _ ?s, OF new_Function_time a(1)]
    accepted_formula [of new_Function "''t''" _ "?s\<lparr>isAnimated := False\<rparr>", OF new_Function_time a(3)] a
  show ?thesis by simp
qed

section \<open>Resizing\<close>

text \<open>
  C7. Resizing to any width and height changes the camera's aspect ratio and the
  renderer's size and nothing else: the vertical field of view, both position arrays
  (the sample coordinates and the heights), the evaluator, the time origin and every
  other field stay as they were.
\<close>

theorem resize_frame:
  "snd (onWindowResize cw ch s) =
     (if scene s then s\<lparr>camera_aspect := num_div cw ch, renderer_size := (cw, ch)\<rparr> else s) \<and>
   camera_fov (snd (onWindowResize cw ch s)) = camera_fov s \<and>
   wireframeMesh (snd (onWindowResize cw ch s)) = wireframeMesh s \<and>
   solidMesh (snd (onWindowResize cw ch s)) = solidMesh s \<and>
   compiledFunc (snd (onWindowResize cw ch s)) = compiledFunc s \<and>
   startTime (snd (onWindowResize cw ch s)) = startTime s"
  by (simp add: onWindowResize_def)

section \<open>The time origin\<close>




section \<open>Teardown\<close>



section \<open>Exceptions of the compiled expression\<close>



end
